theory Spec2Isabelle
  imports Complex_Main "HOL-Library.Word"
begin

section \<open>The adaptive monitor: the throttling factor\<close>

text \<open>
  \<^verbatim>\<open>pkg/health\<close>: the metrics handed to the monitor. The fields are \<^verbatim>\<open>float64\<close>
  in the source; they are modelled by the real numbers they denote. Only comparisons
  and the three quotients are used on them.
\<close>

record HealthData =
  CPUUtilization :: real
  P95LatencyMs :: real
  ErrorRate :: real

text \<open>\<^verbatim>\<open>pkg/adaptive/monitor.go\<close>, \<^verbatim>\<open>min(a, b, c)\<close>: the running minimum \<open>m\<close>.\<close>

definition min3 :: "real \<Rightarrow> real \<Rightarrow> real \<Rightarrow> real" where
  "min3 a b c =
     (let m = a;
          m = (if b < m then b else m);
          m = (if c < m then c else m)
      in m)"

definition TargetCPU :: real where "TargetCPU = 0.70"
definition TargetLatency :: real where "TargetLatency = 500.0"
definition TargetErrorRate :: real where "TargetErrorRate = 0.01"

definition calculateFactor :: "HealthData \<Rightarrow> real" where
  "calculateFactor data =
     (let cpuFactor = TargetCPU / CPUUtilization data;
          latencyFactor = TargetLatency / P95LatencyMs data;
          errorFactor = TargetErrorRate / ErrorRate data;
          factor = min3 cpuFactor latencyFactor errorFactor
      in if factor > 1.0 then 1.0
         else if factor < 0.1 then 0.1
         else factor)"

section \<open>Properties of the throttling factor\<close>

lemma min3_min: "min3 a b c = min a (min b c)"
  by (simp add: min3_def Let_def min_def)

text \<open>
  Claim C10. For health data whose three fields are positive, \<open>calculateFactor\<close>
  returns the least of the three quotients target / current, clamped into the closed
  interval from 0.1 to 1.0; in particular the factor lies between 0.1 and 1.0.
\<close>

theorem calculateFactor_clamped_min:
  assumes "0 < CPUUtilization d" and "0 < P95LatencyMs d" and "0 < ErrorRate d"
  shows "calculateFactor d =
           max 0.1 (min 1.0 (min (0.70 / CPUUtilization d)
                                 (min (500.0 / P95LatencyMs d) (0.01 / ErrorRate d))))
         \<and> 0.1 \<le> calculateFactor d \<and> calculateFactor d \<le> 1.0"
  by (simp add: calculateFactor_def Let_def min3_min TargetCPU_def TargetLatency_def
      TargetErrorRate_def min_def max_def)

theorem calculateFactor_clamped_min_witness:
  "calculateFactor \<lparr>CPUUtilization = 0.85, P95LatencyMs = 620.5, ErrorRate = 0.03\<rparr> = 1 / 3
   \<and> calculateFactor \<lparr>CPUUtilization = 0.35, P95LatencyMs = 100, ErrorRate = 0.001\<rparr> = 1
   \<and> calculateFactor \<lparr>CPUUtilization = 0.95, P95LatencyMs = 9000, ErrorRate = 0.5\<rparr> = 0.1"
  using calculateFactor_clamped_min
          [of "\<lparr>CPUUtilization = 0.85, P95LatencyMs = 620.5, ErrorRate = 0.03\<rparr>"]
        calculateFactor_clamped_min
          [of "\<lparr>CPUUtilization = 0.35, P95LatencyMs = 100, ErrorRate = 0.001\<rparr>"]
        calculateFactor_clamped_min
          [of "\<lparr>CPUUtilization = 0.95, P95LatencyMs = 9000, ErrorRate = 0.5\<rparr>"]
  by (simp add: min_def max_def)

end
